theory Spec2Isabelle
  imports Complex_Main
begin

unbundle bit_operations_syntax

section \<open>libeval: the expression compiler and its stack machine\<close>

text \<open>
  A shallow embedding of \<^verbatim>\<open>include/libeval_compiler/libeval_compiler.h\<close>.
  A C++ \<^verbatim>\<open>double\<close> is modelled as a \<^typ>\<open>real\<close>: the model covers the
  values and operations that are exact in binary floating point; rounding, infinities
  and NaN are outside it. A C++ \<^verbatim>\<open>int\<close> is an \<^typ>\<open>int\<close>; the stack pointer
  and the allocation pointer stay far below the 32-bit range on every path that does
  not leave its array first.
\<close>

subsection \<open>Opcodes (the \<^verbatim>\<open>TR_OP_*\<close> macros)\<close>

text \<open>
  The values are the header's. \<^verbatim>\<open>TR_OP_LESS\<close> is \<open>0x25\<close> there: of the binary
  operators it is the one whose code does not contain the bit of
  \<^verbatim>\<open>TR_OP_BINARY_MASK\<close>.
\<close>

definition TR_OP_BINARY_MASK :: nat where "TR_OP_BINARY_MASK = 0x200"
definition TR_OP_UNARY_MASK :: nat where "TR_OP_UNARY_MASK = 0x100"
definition TR_OP_MUL :: nat where "TR_OP_MUL = 0x201"
definition TR_OP_DIV :: nat where "TR_OP_DIV = 0x202"
definition TR_OP_ADD :: nat where "TR_OP_ADD = 0x203"
definition TR_OP_SUB :: nat where "TR_OP_SUB = 0x204"
definition TR_OP_LESS :: nat where "TR_OP_LESS = 0x25"
definition TR_OP_GREATER :: nat where "TR_OP_GREATER = 0x206"
definition TR_OP_LESS_EQUAL :: nat where "TR_OP_LESS_EQUAL = 0x207"
definition TR_OP_GREATER_EQUAL :: nat where "TR_OP_GREATER_EQUAL = 0x208"
definition TR_OP_EQUAL :: nat where "TR_OP_EQUAL = 0x209"
definition TR_OP_NOT_EQUAL :: nat where "TR_OP_NOT_EQUAL = 0x20a"
definition TR_OP_BOOL_AND :: nat where "TR_OP_BOOL_AND = 0x20b"
definition TR_OP_BOOL_OR :: nat where "TR_OP_BOOL_OR = 0x20c"
definition TR_OP_BOOL_NOT :: nat where "TR_OP_BOOL_NOT = 0x100"
definition TR_OP_FUNC_CALL :: nat where "TR_OP_FUNC_CALL = 24"
definition TR_OP_METHOD_CALL :: nat where "TR_OP_METHOD_CALL = 25"
definition TR_UOP_PUSH_VAR :: nat where "TR_UOP_PUSH_VAR = 1"
definition TR_UOP_PUSH_VALUE :: nat where "TR_UOP_PUSH_VALUE = 2"

subsection \<open>\<^verbatim>\<open>ERROR_STATUS\<close>\<close>

datatype STAGE = CST_PARSE | CST_CODEGEN | CST_RUNTIME

record ERROR_STATUS =
  pendingError :: bool
  stage :: STAGE
  message :: string
  srcPos :: int

subsection \<open>\<^verbatim>\<open>VALUE\<close>\<close>

datatype VAR_TYPE_T = VT_STRING | VT_NUMERIC | VT_UNDEFINED

record VALUE =
  m_type :: VAR_TYPE_T
  m_valueDbl :: real
  m_valueStr :: string

text \<open>The three constructors: \<^verbatim>\<open>VALUE()\<close>, \<^verbatim>\<open>VALUE( std::string )\<close>,
  \<^verbatim>\<open>VALUE( const double )\<close>. A default-constructed \<^verbatim>\<open>std::string\<close> is empty.\<close>

definition VALUE_undef :: VALUE where
  "VALUE_undef = \<lparr>m_type = VT_UNDEFINED, m_valueDbl = 0, m_valueStr = []\<rparr>"

definition VALUE_str :: "string \<Rightarrow> VALUE" where
  "VALUE_str aStr = \<lparr>m_type = VT_STRING, m_valueDbl = 0, m_valueStr = aStr\<rparr>"

definition VALUE_dbl :: "real \<Rightarrow> VALUE" where
  "VALUE_dbl aVal = \<lparr>m_type = VT_NUMERIC, m_valueDbl = aVal, m_valueStr = []\<rparr>"

definition AsDouble :: "VALUE \<Rightarrow> real" where
  "AsDouble v = m_valueDbl v"

definition AsString :: "VALUE \<Rightarrow> string" where
  "AsString v = m_valueStr v"

definition GetType :: "VALUE \<Rightarrow> VAR_TYPE_T" where
  "GetType v = m_type v"

text \<open>\<^verbatim>\<open>VALUE::operator==\<close>.\<close>

definition VALUE_eq :: "VALUE \<Rightarrow> VALUE \<Rightarrow> bool" where
  "VALUE_eq a b =
     (if m_type a = VT_NUMERIC \<and> m_type b = VT_NUMERIC then m_valueDbl a = m_valueDbl b
      else if m_type a = VT_STRING \<and> m_type b = VT_STRING then m_valueStr a = m_valueStr b
      else False)"

definition EqualTo :: "VALUE \<Rightarrow> VALUE \<Rightarrow> bool" where
  "EqualTo v v2 = VALUE_eq v v2"

text \<open>The three overloads of \<^verbatim>\<open>VALUE::Set\<close>.\<close>

definition Set_dbl :: "real \<Rightarrow> VALUE \<Rightarrow> VALUE" where
  "Set_dbl aValue v = v\<lparr>m_type := VT_NUMERIC, m_valueDbl := aValue\<rparr>"

definition Set_str :: "string \<Rightarrow> VALUE \<Rightarrow> VALUE" where
  "Set_str aValue v = v\<lparr>m_type := VT_STRING, m_valueStr := aValue\<rparr>"

definition Set_val :: "VALUE \<Rightarrow> VALUE \<Rightarrow> VALUE" where
  "Set_val val v =
     (let v1 = v\<lparr>m_type := m_type val, m_valueDbl := m_valueDbl val\<rparr>
      in if m_type v1 = VT_STRING then v1\<lparr>m_valueStr := m_valueStr val\<rparr> else v1)"

subsection \<open>\<^verbatim>\<open>CONTEXT\<close>: the operand stack and the scratch arena\<close>

text \<open>
  A \<^verbatim>\<open>VALUE*\<close> on the operand stack points either at the constant a push operation
  owns (\<open>PConst\<close>, named by the constant it points at, which nothing mutates), or at a
  slot of the context's own arena \<^verbatim>\<open>m_heap\<close> (\<open>PHeap\<close>, named by the slot's
  index), or nowhere.
\<close>

datatype VALUE_ptr = PNull | PConst VALUE | PHeap nat

text \<open>
  \<^verbatim>\<open>VALUE* m_stack[128]\<close> is a map from index to pointer; what the code does at an
  index outside \<open>0..127\<close> is written out in \<open>Push\<close> and \<open>Pop\<close>.
\<close>

record CONTEXT =
  m_heap :: "VALUE list"
  m_stack :: "nat \<Rightarrow> VALUE_ptr"
  m_sp :: int
  m_memPos :: int
  m_errorStatus :: ERROR_STATUS

definition c_memSize :: int where "c_memSize = 128"

text \<open>The length of \<^verbatim>\<open>m_stack\<close>, the literal 128 of its declaration.\<close>

definition c_stackSize :: int where "c_stackSize = 128"

text \<open>
  What a call does besides returning: a failed \<^verbatim>\<open>assert\<close> or an uncaught exception aborts the process
  (\<open>Abort\<close>); an array access outside the array is performed unchecked
  (\<open>OutOfBounds\<close>). The model is of a build in which \<^verbatim>\<open>assert\<close> is checked.
\<close>

datatype 'a outcome = Ok 'a | Abort | OutOfBounds

text \<open>
  The constructor sets \<^verbatim>\<open>m_sp\<close>, fills \<^verbatim>\<open>m_heap\<close> with \<^verbatim>\<open>c_memSize\<close> default
  values, and the member initialisers set \<^verbatim>\<open>m_memPos\<close> and \<^verbatim>\<open>pendingError\<close>.
  It leaves \<^verbatim>\<open>m_stack\<close>, \<^verbatim>\<open>stage\<close> and \<^verbatim>\<open>srcPos\<close> as they are in memory:
  these are the arguments. A default-constructed \<^verbatim>\<open>wxString\<close> is empty.
\<close>

definition CONTEXT_new :: "(nat \<Rightarrow> VALUE_ptr) \<Rightarrow> STAGE \<Rightarrow> int \<Rightarrow> CONTEXT" where
  "CONTEXT_new stk0 stage0 pos0 =
     \<lparr>m_heap = replicate (nat c_memSize) VALUE_undef,
      m_stack = stk0,
      m_sp = 0,
      m_memPos = 0,
      m_errorStatus = \<lparr>pendingError = False, stage = stage0, message = [], srcPos = pos0\<rparr>\<rparr>"

definition AllocValue :: "CONTEXT \<Rightarrow> (VALUE_ptr \<times> CONTEXT) outcome" where
  "AllocValue c =
     (if \<not> m_memPos c < c_memSize then Abort
      else if m_memPos c < 0 \<or> int (length (m_heap c)) \<le> m_memPos c then OutOfBounds
      else Ok (PHeap (nat (m_memPos c)), c\<lparr>m_memPos := m_memPos c + 1\<rparr>))"

definition Push :: "VALUE_ptr \<Rightarrow> CONTEXT \<Rightarrow> CONTEXT outcome" where
  "Push v c =
     (if 0 \<le> m_sp c \<and> m_sp c < c_stackSize
      then Ok (c\<lparr>m_stack := (m_stack c)(nat (m_sp c) := v), m_sp := m_sp c + 1\<rparr>)
      else OutOfBounds)"

definition Pop :: "CONTEXT \<Rightarrow> (VALUE_ptr \<times> CONTEXT) outcome" where
  "Pop c =
     (let sp = m_sp c - 1
      in if 0 \<le> sp \<and> sp < c_stackSize
         then Ok (m_stack c (nat sp), c\<lparr>m_sp := sp\<rparr>)
         else OutOfBounds)"

definition SP :: "CONTEXT \<Rightarrow> int" where
  "SP c = m_sp c"

definition GetErrorStatus :: "CONTEXT \<Rightarrow> ERROR_STATUS" where
  "GetErrorStatus c = m_errorStatus c"

text \<open>\<open>n\<close> calls of \<^verbatim>\<open>AllocValue\<close> in a row, with the pointers they return.\<close>

fun AllocValues :: "nat \<Rightarrow> CONTEXT \<Rightarrow> (VALUE_ptr list \<times> CONTEXT) outcome" where
  "AllocValues 0 c = Ok ([], c)"
| "AllocValues (Suc n) c =
     (case AllocValue c of
        Ok (p, c') \<Rightarrow>
          (case AllocValues n c' of
             Ok (ps, c'') \<Rightarrow> Ok (p # ps, c'')
           | Abort \<Rightarrow> Abort
           | OutOfBounds \<Rightarrow> OutOfBounds)
      | Abort \<Rightarrow> Abort
      | OutOfBounds \<Rightarrow> OutOfBounds)"

text \<open>\<open>n\<close> calls of \<^verbatim>\<open>Push\<close> in a row.\<close>

fun Pushes :: "VALUE_ptr list \<Rightarrow> CONTEXT \<Rightarrow> CONTEXT outcome" where
  "Pushes [] c = Ok c"
| "Pushes (v # vs) c =
     (case Push v c of
        Ok c' \<Rightarrow> Pushes vs c'
      | Abort \<Rightarrow> Abort
      | OutOfBounds \<Rightarrow> OutOfBounds)"

text \<open>The operand stack as a list, bottom first: the entries below \<^verbatim>\<open>m_sp\<close>.\<close>

definition stack_contents :: "CONTEXT \<Rightarrow> VALUE_ptr list" where
  "stack_contents c = map (m_stack c) [0..<nat (m_sp c)]"

text \<open>Sequencing of calls: the first failure ends the sequence.\<close>

definition obind :: "'a outcome \<Rightarrow> ('a \<Rightarrow> 'b outcome) \<Rightarrow> 'b outcome" where
  "obind x f = (case x of Ok a \<Rightarrow> f a | Abort \<Rightarrow> Abort | OutOfBounds \<Rightarrow> OutOfBounds)"


subsection \<open>Error reporting\<close>

text \<open>
  Modelled from the spec: the bodies of \<^verbatim>\<open>CONTEXT::ReportError\<close> and
  \<^verbatim>\<open>COMPILER::ReportError\<close>, which the header only declares. The spec: the status
  holds a pending-error flag, a stage, a message and a source offset; "only the first
  error in a given stage is retained; subsequent errors in the same pass are suppressed
  once the flag is set".
\<close>

definition recordError :: "STAGE \<Rightarrow> string \<Rightarrow> int \<Rightarrow> ERROR_STATUS \<Rightarrow> ERROR_STATUS" where
  "recordError aStage aErrorMsg aPos st =
     (if pendingError st then st
      else st\<lparr>pendingError := True, stage := aStage, message := aErrorMsg, srcPos := aPos\<rparr>)"

text \<open>
  Modelled from the spec: \<^verbatim>\<open>CONTEXT::ReportError( aErrorMsg )\<close>. Errors of a run are
  of stage Runtime. The call is given no source offset and the context holds none, so
  the offset recorded is the one the status already holds.
\<close>

definition CONTEXT_ReportError :: "string \<Rightarrow> CONTEXT \<Rightarrow> CONTEXT" where
  "CONTEXT_ReportError aErrorMsg c =
     c\<lparr>m_errorStatus :=
         recordError CST_RUNTIME aErrorMsg (srcPos (m_errorStatus c)) (m_errorStatus c)\<rparr>"

text \<open>Modelled from the spec: the reports of one pass, one after the other, each recorded as above.\<close>

fun recordErrors :: "(STAGE \<times> string \<times> int) list \<Rightarrow> ERROR_STATUS \<Rightarrow> ERROR_STATUS" where
  "recordErrors [] st = st"
| "recordErrors ((aStage, aErrorMsg, aPos) # es) st =
     recordErrors es (recordError aStage aErrorMsg aPos st)"

subsection \<open>\<^verbatim>\<open>UOP\<close> and \<^verbatim>\<open>UCODE\<close>\<close>

text \<open>
  \<^verbatim>\<open>VAR_REF\<close> is the host's variable reference, an abstract class with two methods.
  \<^verbatim>\<open>FUNC_PTR\<close> is the host's closure; it receives the context (the program pointer and
  the opaque argument are what the host bound into it).
\<close>

record VAR_REF =
  var_GetType :: VAR_TYPE_T
  var_GetValue :: "CONTEXT \<Rightarrow> VALUE"

type_synonym FUNC_PTR = "CONTEXT \<Rightarrow> CONTEXT outcome"

text \<open>\<^verbatim>\<open>void* m_arg\<close>: null, the constant the operation owns, or a variable reference.\<close>

datatype UOP_ARG = ArgNull | ArgValue VALUE | ArgVarRef VAR_REF

record UOP =
  m_op :: nat
  m_arg :: UOP_ARG
  m_func :: "FUNC_PTR option"

text \<open>The four overloads of \<^verbatim>\<open>COMPILER::makeUop\<close>.\<close>

definition makeUop_dbl :: "nat \<Rightarrow> real \<Rightarrow> UOP" where
  "makeUop_dbl opc val = \<lparr>m_op = opc, m_arg = ArgValue (VALUE_dbl val), m_func = None\<rparr>"

definition makeUop_str :: "nat \<Rightarrow> string \<Rightarrow> UOP" where
  "makeUop_str opc val = \<lparr>m_op = opc, m_arg = ArgValue (VALUE_str val), m_func = None\<rparr>"

definition makeUop_ref :: "nat \<Rightarrow> VAR_REF option \<Rightarrow> UOP" where
  "makeUop_ref opc aRef =
     \<lparr>m_op = opc, m_arg = (case aRef of None \<Rightarrow> ArgNull | Some r \<Rightarrow> ArgVarRef r), m_func = None\<rparr>"

definition makeUop_func :: "nat \<Rightarrow> FUNC_PTR option \<Rightarrow> UOP_ARG \<Rightarrow> UOP" where
  "makeUop_func opc aFunc arg = \<lparr>m_op = opc, m_arg = arg, m_func = aFunc\<rparr>"

text \<open>
  \<^verbatim>\<open>UCODE\<close>: the operations, and the two virtual methods a host overrides, as fields.
  \<^verbatim>\<open>nullptr\<close> is \<open>None\<close>.
\<close>

record UCODE =
  m_ucode :: "UOP list"
  createVarRef :: "string \<Rightarrow> string \<Rightarrow> VAR_REF option"
  createFuncCall :: "string \<Rightarrow> FUNC_PTR option"

definition UCODE_new :: UCODE where
  "UCODE_new = \<lparr>m_ucode = [], createVarRef = (\<lambda>var field. None), createFuncCall = (\<lambda>name. None)\<rparr>"

definition AddOp :: "UOP \<Rightarrow> UCODE \<Rightarrow> UCODE" where
  "AddOp uop code = code\<lparr>m_ucode := m_ucode code @ [uop]\<rparr>"

subsection \<open>The virtual machine\<close>

text \<open>Reading and writing through a \<^verbatim>\<open>VALUE*\<close>.\<close>

definition deref :: "CONTEXT \<Rightarrow> VALUE_ptr \<Rightarrow> VALUE outcome" where
  "deref c p =
     (case p of
        PNull \<Rightarrow> OutOfBounds
      | PConst v \<Rightarrow> Ok v
      | PHeap i \<Rightarrow> if i < length (m_heap c) then Ok (m_heap c ! i) else OutOfBounds)"

definition assign :: "VALUE_ptr \<Rightarrow> (VALUE \<Rightarrow> VALUE) \<Rightarrow> CONTEXT \<Rightarrow> CONTEXT outcome" where
  "assign p f c =
     (case p of
        PHeap i \<Rightarrow>
          if i < length (m_heap c) then Ok (c\<lparr>m_heap := (m_heap c)[i := f (m_heap c ! i)]\<rparr>)
          else OutOfBounds
      | _ \<Rightarrow> OutOfBounds)"

text \<open>
  Modelled from the spec: the body of \<^verbatim>\<open>UOP::Exec\<close>, which the header only declares.
  Section 4.5 of the spec gives the contract of each operation; the definitions below
  follow it sentence by sentence.

  "logical: operands coerced to boolean via nonzero numeric or nonempty string".
\<close>

definition toBool :: "VALUE \<Rightarrow> bool" where
  "toBool v =
     (m_type v = VT_NUMERIC \<and> m_valueDbl v \<noteq> 0 \<or> m_type v = VT_STRING \<and> m_valueStr v \<noteq> [])"

text \<open>
  Modelled from the spec: part of \<^verbatim>\<open>UOP::Exec\<close>. "Result is a
  Numeric 0/1 boolean."
\<close>

definition ofBool :: "bool \<Rightarrow> real" where
  "ofBool b = (if b then 1 else 0)"

text \<open>
  Modelled from the spec: part of \<^verbatim>\<open>UOP::Exec\<close>. The operations
  are told apart by their opcode: "binary arithmetic (+ - * /)".
\<close>

definition isArithmetic :: "nat \<Rightarrow> bool" where
  "isArithmetic opc \<longleftrightarrow> opc = TR_OP_ADD \<or> opc = TR_OP_SUB \<or> opc = TR_OP_MUL \<or> opc = TR_OP_DIV"

text \<open>
  Modelled from the spec: part of \<^verbatim>\<open>UOP::Exec\<close>. The ordering
  comparisons among "relational/equality (< > <= >= == !=)".
\<close>

definition isOrdering :: "nat \<Rightarrow> bool" where
  "isOrdering opc \<longleftrightarrow> opc = TR_OP_LESS \<or> opc = TR_OP_GREATER \<or> opc = TR_OP_LESS_EQUAL
     \<or> opc = TR_OP_GREATER_EQUAL"

text \<open>
  Modelled from the spec: part of \<^verbatim>\<open>UOP::Exec\<close>. Equality and
  inequality.
\<close>

definition isEquality :: "nat \<Rightarrow> bool" where
  "isEquality opc \<longleftrightarrow> opc = TR_OP_EQUAL \<or> opc = TR_OP_NOT_EQUAL"

text \<open>
  Modelled from the spec: part of \<^verbatim>\<open>UOP::Exec\<close>. The binary ones
  of "logical (&& || !)".
\<close>

definition isLogical :: "nat \<Rightarrow> bool" where
  "isLogical opc \<longleftrightarrow> opc = TR_OP_BOOL_AND \<or> opc = TR_OP_BOOL_OR"

text \<open>
  Modelled from the spec: part of \<^verbatim>\<open>UOP::Exec\<close>. The operations
  that pop two operands.
\<close>

definition isBinary :: "nat \<Rightarrow> bool" where
  "isBinary opc \<longleftrightarrow> isArithmetic opc \<or> isOrdering opc \<or> isEquality opc \<or> isLogical opc"

text \<open>
  Modelled from the spec: part of \<^verbatim>\<open>UOP::Exec\<close>. The result of a binary operation on its two operands, or the message of the Runtime
  error: "require both Numeric (mixed/string operands on arithmetic ops are a Runtime
  error)", "division by zero is a Runtime error", "Numeric operands compare
  numerically, String operands compare lexically for equality/inequality only (ordering
  comparisons on strings are a Runtime error); result is a Numeric 0/1 boolean".
  Equality is \<^verbatim>\<open>VALUE::EqualTo\<close>.
\<close>

definition binaryResult :: "nat \<Rightarrow> VALUE \<Rightarrow> VALUE \<Rightarrow> string + real" where
  "binaryResult opc arg1 arg2 =
     (if isArithmetic opc then
        (if \<not> (m_type arg1 = VT_NUMERIC \<and> m_type arg2 = VT_NUMERIC) then Inl ''type mismatch''
         else if opc = TR_OP_ADD then Inr (AsDouble arg1 + AsDouble arg2)
         else if opc = TR_OP_SUB then Inr (AsDouble arg1 - AsDouble arg2)
         else if opc = TR_OP_MUL then Inr (AsDouble arg1 * AsDouble arg2)
         else if AsDouble arg2 = 0 then Inl ''division by zero''
         else Inr (AsDouble arg1 / AsDouble arg2))
      else if isOrdering opc then
        (if \<not> (m_type arg1 = VT_NUMERIC \<and> m_type arg2 = VT_NUMERIC)
         then Inl ''unsupported ordering comparison''
         else if opc = TR_OP_LESS then Inr (ofBool (AsDouble arg1 < AsDouble arg2))
         else if opc = TR_OP_GREATER then Inr (ofBool (AsDouble arg1 > AsDouble arg2))
         else if opc = TR_OP_LESS_EQUAL then Inr (ofBool (AsDouble arg1 \<le> AsDouble arg2))
         else Inr (ofBool (AsDouble arg1 \<ge> AsDouble arg2)))
      else if opc = TR_OP_EQUAL then Inr (ofBool (EqualTo arg1 arg2))
      else if opc = TR_OP_NOT_EQUAL then Inr (ofBool (\<not> EqualTo arg1 arg2))
      else if opc = TR_OP_BOOL_AND then Inr (ofBool (toBool arg1 \<and> toBool arg2))
      else Inr (ofBool (toBool arg1 \<or> toBool arg2)))"

text \<open>
  Modelled from the spec: part of \<^verbatim>\<open>UOP::Exec\<close>. "Allocate a result in the scratch arena, push it." An operation that reports a Runtime
  error goes on as a normal outcome: it still allocates and pushes its result slot,
  which it leaves as the arena holds it, so that the stack keeps its shape.
\<close>

definition pushResult :: "string + real \<Rightarrow> CONTEXT \<Rightarrow> CONTEXT outcome" where
  "pushResult res c =
     (case res of
        Inr result \<Rightarrow>
          obind (AllocValue c) (\<lambda>(rp, c1). obind (assign rp (Set_dbl result) c1) (Push rp))
      | Inl aErrorMsg \<Rightarrow>
          obind (AllocValue (CONTEXT_ReportError aErrorMsg c)) (\<lambda>(rp, c1). Push rp c1))"

text \<open>
  Modelled from the spec: part of \<^verbatim>\<open>UOP::Exec\<close>. "Pop two
  operands", the second operand first, compute, "allocate a result in the scratch arena,
  push it."
\<close>

definition execBinary :: "nat \<Rightarrow> CONTEXT \<Rightarrow> CONTEXT outcome" where
  "execBinary opc c =
     obind (Pop c) (\<lambda>(p2, c1).
     obind (Pop c1) (\<lambda>(p1, c2).
     obind (deref c2 p2) (\<lambda>arg2.
     obind (deref c2 p1) (\<lambda>arg1.
       pushResult (binaryResult opc arg1 arg2) c2))))"

text \<open>
  Modelled from the spec: part of \<^verbatim>\<open>UOP::Exec\<close>. Negation pops
  one operand and pushes its result.
\<close>

definition execUnary :: "CONTEXT \<Rightarrow> CONTEXT outcome" where
  "execUnary c =
     obind (Pop c) (\<lambda>(p1, c1).
     obind (deref c1 p1) (\<lambda>arg1.
       pushResult (Inr (ofBool (\<not> toBool arg1))) c1))"

text \<open>
  Modelled from the spec: \<^verbatim>\<open>UOP::Exec\<close>. "push-constant: push the constant Value pointer. push-variable: invoke the bound
  variable reference's getter against the current Execution Context, store the result
  in the scratch arena, push its pointer. call/method-call: invoke the bound closure
  with the Execution Context and the opaque argument; the closure is responsible for
  pushing its own result." A push-variable without a reference reads through a null
  pointer; calling an empty \<^verbatim>\<open>std::function\<close> throws. An opcode that is none of
  these does nothing.
\<close>

definition Exec :: "UOP \<Rightarrow> CONTEXT \<Rightarrow> CONTEXT outcome" where
  "Exec uop c =
     (if m_op uop = TR_UOP_PUSH_VALUE then
        (case m_arg uop of ArgValue v \<Rightarrow> Push (PConst v) c | _ \<Rightarrow> Push PNull c)
      else if m_op uop = TR_UOP_PUSH_VAR then
        (case m_arg uop of
           ArgVarRef r \<Rightarrow>
             obind (AllocValue c) (\<lambda>(rp, c1).
             obind (assign rp (Set_val (var_GetValue r c)) c1) (Push rp))
         | _ \<Rightarrow> OutOfBounds)
      else if m_op uop = TR_OP_FUNC_CALL \<or> m_op uop = TR_OP_METHOD_CALL then
        (case m_func uop of Some f \<Rightarrow> f c | None \<Rightarrow> Abort)
      else if isBinary (m_op uop) then execBinary (m_op uop) c
      else if m_op uop = TR_OP_BOOL_NOT then execUnary c
      else Ok c)"

text \<open>
  Modelled from the spec: the loop of \<^verbatim>\<open>UCODE::Run\<close>, which
  "executes each operation in order"; a fatal outcome ends it.
\<close>

fun execAll :: "UOP list \<Rightarrow> CONTEXT \<Rightarrow> CONTEXT outcome" where
  "execAll [] c = Ok c"
| "execAll (uop # uops) c = obind (Exec uop c) (execAll uops)"

text \<open>
  Modelled from the spec: the body of \<^verbatim>\<open>UCODE::Run\<close>, which the header only declares.
  "Run(Program) resets the Execution Context" ("stack pointer and allocation pointer
  zeroed"), "then executes each operation in order. After the final operation, exactly
  one Value remains on the stack; Run returns it." Any other stack depth at the end is
  the fatal condition of the spec. The context argument is the Execution Context of
  this run.
\<close>

definition Run :: "UCODE \<Rightarrow> CONTEXT \<Rightarrow> (VALUE_ptr \<times> CONTEXT) outcome" where
  "Run code c0 =
     obind (execAll (m_ucode code) (c0\<lparr>m_sp := 0, m_memPos := 0\<rparr>))
       (\<lambda>c. if SP c = 1 then Pop c else Abort)"

text \<open>Modelled from the spec: the Value that \<^verbatim>\<open>Run\<close> returns a pointer to, "the single result Value".\<close>

definition RunValue :: "UCODE \<Rightarrow> CONTEXT \<Rightarrow> VALUE outcome" where
  "RunValue code c0 = obind (Run code c0) (\<lambda>(p, c). deref c p)"

text \<open>
  Modelled from the spec: the error status that a run leaves: "Runtime failures are
  reported through the Error Status".
\<close>

definition RunStatus :: "UCODE \<Rightarrow> CONTEXT \<Rightarrow> ERROR_STATUS outcome" where
  "RunStatus code c0 = obind (Run code c0) (\<lambda>(p, c). Ok (GetErrorStatus c))"

subsection \<open>\<^verbatim>\<open>TREE_NODE\<close> and the tokens\<close>

definition TR_NUMBER :: nat where "TR_NUMBER = 1"
definition TR_IDENTIFIER :: nat where "TR_IDENTIFIER = 2"
definition TR_ASSIGN :: nat where "TR_ASSIGN = 3"
definition TR_STRUCT_REF :: nat where "TR_STRUCT_REF = 4"
definition TR_STRING :: nat where "TR_STRING = 5"
definition TR_UNIT :: nat where "TR_UNIT = 6"

definition LIBEVAL_MAX_LITERAL_LENGTH :: nat where "LIBEVAL_MAX_LITERAL_LENGTH = 1024"

text \<open>
  A \<^verbatim>\<open>TREE_NODE*\<close>: null, or a node with \<^verbatim>\<open>value.str\<close>, \<^verbatim>\<open>value.type\<close>,
  \<^verbatim>\<open>op\<close>, \<^verbatim>\<open>leaf[0]\<close>, \<^verbatim>\<open>leaf[1]\<close>, \<^verbatim>\<open>valid\<close>, \<^verbatim>\<open>isTerminal\<close> and
  \<^verbatim>\<open>srcPos\<close>. The children are owned by the parent, so the tree is a value. The field
  \<^verbatim>\<open>uop\<close> is scratch space of code generation and is left out.
\<close>

datatype TREE_NODE =
    NullNode
  | TREE_NODE string int nat TREE_NODE TREE_NODE bool bool int

fun nodeStr :: "TREE_NODE \<Rightarrow> string" where
  "nodeStr NullNode = []"
| "nodeStr (TREE_NODE str ty opc l0 l1 v t pos) = str"

fun nodeType :: "TREE_NODE \<Rightarrow> int" where
  "nodeType NullNode = 0"
| "nodeType (TREE_NODE str ty opc l0 l1 v t pos) = ty"

fun nodePos :: "TREE_NODE \<Rightarrow> int" where
  "nodePos NullNode = - 1"
| "nodePos (TREE_NODE str ty opc l0 l1 v t pos) = pos"

text \<open>
  \<^verbatim>\<open>snprintf( str, LIBEVAL_MAX_LITERAL_LENGTH, "%s", value.c_str() )\<close>: the text up to
  its first NUL, cut to what the buffer holds besides the terminator.
\<close>

definition snprintf_s :: "nat \<Rightarrow> string \<Rightarrow> string" where
  "snprintf_s n s = take (n - 1) (takeWhile (\<lambda>c. c \<noteq> CHR 0x00) s)"

definition newNode :: "nat \<Rightarrow> int \<Rightarrow> string \<Rightarrow> TREE_NODE" where
  "newNode opc ty val =
     TREE_NODE (snprintf_s LIBEVAL_MAX_LITERAL_LENGTH val) ty opc NullNode NullNode True False (- 1)"

fun copyNode :: "TREE_NODE \<Rightarrow> TREE_NODE" where
  "copyNode NullNode = NullNode"
| "copyNode (TREE_NODE str ty opc l0 l1 v t pos) =
     TREE_NODE (snprintf_s LIBEVAL_MAX_LITERAL_LENGTH str) ty opc l0 l1 v False pos"

text \<open>
  The terminal symbols of the grammar. Modelled from the spec: the generated grammar
  header is not part of the sources; these are the token kinds of section 3 and the
  lexemes of section 4.2, with the parentheses and the comma of section 4.3. An operator
  token carries its opcode.
\<close>

datatype G_TOKEN =
    G_ENDS | G_ERROR | G_VALUE | G_UNIT | G_STRING | G_IDENTIFIER | G_STRUCT_REF
  | G_PARENL | G_PARENR | G_COMMA | G_ASSIGN | G_OP nat

text \<open>\<^verbatim>\<open>COMPILER::T_TOKEN\<close>.\<close>

record T_TOKEN =
  token :: G_TOKEN
  tvalue :: TREE_NODE

subsection \<open>\<^verbatim>\<open>UNIT_RESOLVER\<close> and \<^verbatim>\<open>COMPILER\<close>\<close>

record UNIT_RESOLVER =
  GetSupportedUnits :: "string list"
  Convert :: "string \<Rightarrow> int \<Rightarrow> real"

text \<open>The base class: no units, and \<^verbatim>\<open>Convert\<close> returns \<open>0.0\<close>.\<close>

definition UNIT_RESOLVER_new :: UNIT_RESOLVER where
  "UNIT_RESOLVER_new = \<lparr>GetSupportedUnits = [], Convert = (\<lambda>aString unitType. 0)\<rparr>"

datatype LEXER_STATE = LS_DEFAULT | LS_STRING

text \<open>
  The members of \<^verbatim>\<open>COMPILER\<close>. The parser's own state \<^verbatim>\<open>m_parser\<close> is the
  \<open>PARSER\<close> below, and \<^verbatim>\<open>m_tokenizer\<close> is the text still to read with its offset;
  both live only inside one \<^verbatim>\<open>Compile\<close>. The member \<^verbatim>\<open>m_errorStatus\<close> is
  the field \<open>m_compilerStatus\<close>, the name \<open>m_errorStatus\<close> being the field of
  \<open>CONTEXT\<close>.
\<close>

record COMPILER =
  m_lexerState :: LEXER_STATE
  m_localeDecimalSeparator :: char
  m_unitResolver :: UNIT_RESOLVER
  m_sourcePos :: int
  m_compilerStatus :: ERROR_STATUS
  m_parseFinished :: bool
  m_tree :: TREE_NODE

text \<open>\<^verbatim>\<open>COMPILER::IsValid\<close>, \<^verbatim>\<open>COMPILER::GetSourcePos\<close>.\<close>

definition IsValid :: "COMPILER \<Rightarrow> bool" where
  "IsValid cmpl = (\<not> pendingError (m_compilerStatus cmpl))"

definition GetSourcePos :: "COMPILER \<Rightarrow> int" where
  "GetSourcePos cmpl = m_sourcePos cmpl"

text \<open>
  Modelled from the spec: the constructor of \<^verbatim>\<open>COMPILER\<close>, whose body is not in the
  header. The header's member initialiser clears \<^verbatim>\<open>pendingError\<close>; the stage and the
  offset of the status are as they are in memory (the arguments); the unit resolver is
  the base class.
\<close>

definition COMPILER_new :: "char \<Rightarrow> STAGE \<Rightarrow> int \<Rightarrow> COMPILER" where
  "COMPILER_new sep stage0 pos0 =
     \<lparr>m_lexerState = LS_DEFAULT,
      m_localeDecimalSeparator = sep,
      m_unitResolver = UNIT_RESOLVER_new,
      m_sourcePos = 0,
      m_compilerStatus = \<lparr>pendingError = False, stage = stage0, message = [], srcPos = pos0\<rparr>,
      m_parseFinished = False,
      m_tree = NullNode\<rparr>"

text \<open>
  Modelled from the spec: \<^verbatim>\<open>COMPILER::parseError\<close> and \<^verbatim>\<open>COMPILER::ReportError\<close>
  (declared only). "On any malformed production the parser sets the Error Status to
  stage=Parse with the current token's byte offset"; the code generator sets
  "stage=Codegen at the node's source position".
\<close>

definition parseError :: "string \<Rightarrow> COMPILER \<Rightarrow> COMPILER" where
  "parseError s cmpl =
     cmpl\<lparr>m_compilerStatus := recordError CST_PARSE s (m_sourcePos cmpl) (m_compilerStatus cmpl)\<rparr>"

text \<open>
  Modelled from the spec: \<^verbatim>\<open>COMPILER::ReportError\<close> (declared
  only), the report of the code generator: stage Codegen, at the current source
  position.
\<close>

definition COMPILER_ReportError :: "string \<Rightarrow> COMPILER \<Rightarrow> COMPILER" where
  "COMPILER_ReportError aErrorMsg cmpl =
     cmpl\<lparr>m_compilerStatus :=
            recordError CST_CODEGEN aErrorMsg (m_sourcePos cmpl) (m_compilerStatus cmpl)\<rparr>"

subsection \<open>The lexer\<close>

text \<open>
  Modelled from the spec: \<^verbatim>\<open>getToken\<close>, \<^verbatim>\<open>lexDefault\<close>, \<^verbatim>\<open>lexString\<close>,
  \<^verbatim>\<open>resolveUnits\<close> and \<^verbatim>\<open>TOKENIZER::MatchAhead\<close> (declared only), after section 4.2.
\<close>

definition isdigit :: "char \<Rightarrow> bool" where
  "isdigit c = (48 \<le> (of_char c :: nat) \<and> (of_char c :: nat) \<le> 57)"

text \<open>Modelled from the spec: part of the lexer. The letters that make an identifier.\<close>

definition isalpha :: "char \<Rightarrow> bool" where
  "isalpha c = (65 \<le> (of_char c :: nat) \<and> (of_char c :: nat) \<le> 90
     \<or> 97 \<le> (of_char c :: nat) \<and> (of_char c :: nat) \<le> 122)"

text \<open>Modelled from the spec: part of the lexer. "Whitespace (skipped)".\<close>

definition isspace :: "char \<Rightarrow> bool" where
  "isspace c = ((of_char c :: nat) = 32 \<or> 9 \<le> (of_char c :: nat) \<and> (of_char c :: nat) \<le> 13)"

text \<open>Modelled from the spec: part of the lexer. The first character of an identifier.\<close>

definition isIdentStart :: "char \<Rightarrow> bool" where
  "isIdentStart c = (isalpha c \<or> c = CHR ''_'')"

text \<open>
  Modelled from the spec: part of the lexer. The further characters of an identifier.
\<close>

definition isIdentChar :: "char \<Rightarrow> bool" where
  "isIdentChar c = (isalpha c \<or> isdigit c \<or> c = CHR ''_'')"

text \<open>Modelled from the spec: part of the lexer. "If the locale separator differs from \<open>.\<close>, both are accepted as equivalent."\<close>

definition isDecimalSeparator :: "char \<Rightarrow> char \<Rightarrow> bool" where
  "isDecimalSeparator sep c = (c = sep \<or> c = CHR ''.'')"

text \<open>
  Modelled from the spec: \<^verbatim>\<open>TOKENIZER::GetChars\<close> (declared
  only), by its length: "the maximal run of characters satisfying a caller-supplied
  predicate starting at the cursor".
\<close>

definition runLen :: "(char \<Rightarrow> bool) \<Rightarrow> string \<Rightarrow> nat" where
  "runLen P s = length (takeWhile P s)"

text \<open>Modelled from the spec: part of the lexer. The length of an exponent at the head of the text: \<open>e\<close>, an optional sign, digits.\<close>

definition exponentLen :: "string \<Rightarrow> nat" where
  "exponentLen s =
     (case s of
        [] \<Rightarrow> 0
      | e # r \<Rightarrow>
          if e = CHR ''e'' \<or> e = CHR ''E'' then
            (let sg = (case r of [] \<Rightarrow> 0 | c # r' \<Rightarrow> if c = CHR ''+'' \<or> c = CHR ''-'' then 1 else 0);
                 d = runLen isdigit (drop sg r)
             in if d = 0 then 0 else 1 + sg + d)
          else 0)"

text \<open>
  Modelled from the spec: part of the lexer. The length of what follows the first digit of a numeric literal: "digits, optional
  decimal separator, optional exponent".
\<close>

definition numberLen :: "char \<Rightarrow> string \<Rightarrow> nat" where
  "numberLen sep s =
     (let n1 = runLen isdigit s;
          s1 = drop n1 s;
          n2 = (case s1 of [] \<Rightarrow> 0
                | c # r \<Rightarrow> if isDecimalSeparator sep c then Suc (runLen isdigit r) else 0)
      in n1 + n2 + exponentLen (drop n2 s1))"

text \<open>
  Modelled from the spec: \<^verbatim>\<open>TOKENIZER::MatchAhead\<close> (declared only). "MatchAhead(literal, stopPredicate) tests whether literal occurs at the cursor
  position, with stopPredicate used to bound maximal-munch ambiguity (\<open>mm\<close> must not
  match inside \<open>mmx\<close>)." Past the end of the text the tokenizer reads the sentinel 0.
\<close>

definition MatchAhead :: "string \<Rightarrow> (char \<Rightarrow> bool) \<Rightarrow> string \<Rightarrow> bool" where
  "MatchAhead match stopCond s =
     (take (length match) s = match
      \<and> (case drop (length match) s of [] \<Rightarrow> stopCond (CHR 0x00) | c # r \<Rightarrow> stopCond c))"

text \<open>Modelled from the spec: part of \<^verbatim>\<open>resolveUnits\<close>, "maximal munch". The index of the longest supported unit at the head of the text, or \<open>-1\<close>.\<close>

fun longestUnit :: "string \<Rightarrow> (nat \<times> string) list \<Rightarrow> (nat \<times> string) option \<Rightarrow> (nat \<times> string) option" where
  "longestUnit s [] best = best"
| "longestUnit s ((i, u) # us) best =
     longestUnit s us
       (if u \<noteq> [] \<and> MatchAhead u (\<lambda>c. \<not> isIdentChar c) s
           \<and> (case best of None \<Rightarrow> True | Some (j, w) \<Rightarrow> length w < length u)
        then Some (i, u) else best)"

text \<open>
  Modelled from the spec: \<^verbatim>\<open>COMPILER::resolveUnits\<close> (declared
  only): the unit suffix at the head of the text, "matched against the Host's
  supported-unit list via maximal munch".
\<close>

definition resolveUnits :: "COMPILER \<Rightarrow> string \<Rightarrow> int" where
  "resolveUnits cmpl s =
     (let units = GetSupportedUnits (m_unitResolver cmpl)
      in case longestUnit s (zip [0..<length units] units) None of
           None \<Rightarrow> - 1
         | Some (i, u) \<Rightarrow> int i)"

text \<open>Modelled from the spec: part of the lexer. A token of kind \<open>tok\<close> at offset \<open>pos\<close> whose value is a terminal node.\<close>

definition mkToken :: "G_TOKEN \<Rightarrow> nat \<Rightarrow> int \<Rightarrow> string \<Rightarrow> nat \<Rightarrow> T_TOKEN" where
  "mkToken tok opc ty str pos =
     \<lparr>token = tok,
      tvalue = TREE_NODE (snprintf_s LIBEVAL_MAX_LITERAL_LENGTH str) ty opc NullNode NullNode
                 True True (int pos)\<rparr>"

text \<open>
  Modelled from the spec: \<^verbatim>\<open>COMPILER::lexString\<close> (declared only). One step of the lexer in the string state, at character \<open>c\<close> followed by \<open>cs\<close>: the
  tokens it emits, how many characters of \<open>cs\<close> it consumes, the next state with the
  text of the string so far and the offset of its opening quote, and whether lexing
  stops. "InString state accumulates characters until the closing quote, honoring
  backslash-escapes; on close it emits a String token and returns to Default."
\<close>

definition lexString ::
  "string \<Rightarrow> nat \<Rightarrow> char \<Rightarrow> string
     \<Rightarrow> T_TOKEN list \<times> nat \<times> LEXER_STATE \<times> string \<times> nat \<times> bool" where
  "lexString acc start c cs =
     (if c = CHR 0x27 then
        ([mkToken G_STRING TR_STRING (int TR_STRING) acc start], 0, LS_DEFAULT, [], 0, False)
      else if c = CHR 0x5C then
        (case cs of
           [] \<Rightarrow> ([mkToken G_ERROR 0 0 [] start], 0, LS_STRING, acc, start, True)
         | e # r \<Rightarrow> ([], 1, LS_STRING, acc @ [e], start, False))
      else ([], 0, LS_STRING, acc @ [c], start, False))"

text \<open>Modelled from the spec: part of \<^verbatim>\<open>COMPILER::lexDefault\<close>. The operator lexemes \<open>+ - * / < > <= >= == != && || ! =\<close>, parentheses and comma.\<close>

definition lexOperator :: "nat \<Rightarrow> char \<Rightarrow> string \<Rightarrow> (T_TOKEN \<times> nat) option" where
  "lexOperator pos c cs =
     (let next = (case cs of [] \<Rightarrow> CHR 0x00 | d # r \<Rightarrow> d);
          op1 = (\<lambda>opc. Some (mkToken (G_OP opc) opc 0 [] pos, 0));
          op2 = (\<lambda>opc. Some (mkToken (G_OP opc) opc 0 [] pos, 1))
      in if c = CHR ''+'' then op1 TR_OP_ADD
         else if c = CHR ''-'' then op1 TR_OP_SUB
         else if c = CHR ''*'' then op1 TR_OP_MUL
         else if c = CHR ''/'' then op1 TR_OP_DIV
         else if c = CHR ''<'' then (if next = CHR ''='' then op2 TR_OP_LESS_EQUAL else op1 TR_OP_LESS)
         else if c = CHR ''>'' then
           (if next = CHR ''='' then op2 TR_OP_GREATER_EQUAL else op1 TR_OP_GREATER)
         else if c = CHR ''='' then
           (if next = CHR ''='' then op2 TR_OP_EQUAL
            else Some (mkToken G_ASSIGN TR_ASSIGN (int TR_ASSIGN) [] pos, 0))
         else if c = CHR ''!'' then (if next = CHR ''='' then op2 TR_OP_NOT_EQUAL else op1 TR_OP_BOOL_NOT)
         else if c = CHR ''&'' \<and> next = CHR ''&'' then op2 TR_OP_BOOL_AND
         else if c = CHR ''|'' \<and> next = CHR ''|'' then op2 TR_OP_BOOL_OR
         else if c = CHR ''('' then Some (mkToken G_PARENL 0 0 [] pos, 0)
         else if c = CHR '')'' then Some (mkToken G_PARENR 0 0 [] pos, 0)
         else if c = CHR '','' then Some (mkToken G_COMMA 0 0 [] pos, 0)
         else None)"

text \<open>
  Modelled from the spec: \<^verbatim>\<open>COMPILER::lexDefault\<close> (declared only). One step of the lexer in the default state: whitespace is skipped; a quote opens a
  string; a digit starts a numeric literal, followed by a unit when the longest
  supported unit matches there; a letter starts an identifier, which is a struct-field
  reference when \<open>.field\<close> follows; otherwise an operator lexeme, or an error.
\<close>

definition lexDefault ::
  "COMPILER \<Rightarrow> nat \<Rightarrow> char \<Rightarrow> string
     \<Rightarrow> T_TOKEN list \<times> nat \<times> LEXER_STATE \<times> string \<times> nat \<times> bool" where
  "lexDefault cmpl pos c cs =
     (if isspace c then ([], 0, LS_DEFAULT, [], 0, False)
      else if c = CHR 0x27 then ([], 0, LS_STRING, [], pos, False)
      else if isdigit c then
        (let k = numberLen (m_localeDecimalSeparator cmpl) cs;
             num = mkToken G_VALUE TR_NUMBER (int TR_NUMBER) (c # take k cs) pos;
             rest = drop k cs;
             u = resolveUnits cmpl rest
         in if u < 0 then ([num], k, LS_DEFAULT, [], 0, False)
            else (let unit = GetSupportedUnits (m_unitResolver cmpl) ! nat u
                  in ([num, mkToken G_UNIT TR_UNIT u unit (Suc pos + k)], k + length unit,
                      LS_DEFAULT, [], 0, False)))
      else if isIdentStart c then
        (let k = runLen isIdentChar cs;
             name = c # take k cs;
             ident = mkToken G_IDENTIFIER TR_IDENTIFIER (int TR_IDENTIFIER) name pos
         in case drop k cs of
              dot # f # r \<Rightarrow>
                if dot = CHR ''.'' \<and> isIdentStart f then
                  (let k2 = runLen isIdentChar r;
                       field = mkToken G_IDENTIFIER TR_IDENTIFIER (int TR_IDENTIFIER)
                                 (f # take k2 r) (pos + k + 2)
                   in ([\<lparr>token = G_STRUCT_REF,
                          tvalue = TREE_NODE [] (int TR_STRUCT_REF) TR_STRUCT_REF (tvalue ident)
                                     (tvalue field) True True (int pos)\<rparr>],
                       k + 2 + k2, LS_DEFAULT, [], 0, False))
                else ([ident], k, LS_DEFAULT, [], 0, False)
            | _ \<Rightarrow> ([ident], k, LS_DEFAULT, [], 0, False))
      else
        (case lexOperator pos c cs of
           Some (t, k) \<Rightarrow> ([t], k, LS_DEFAULT, [], 0, False)
         | None \<Rightarrow> ([mkToken G_ERROR 0 0 [] pos], 0, LS_DEFAULT, [], 0, True)))"

text \<open>
  Modelled from the spec: the calls of \<^verbatim>\<open>COMPILER::getToken\<close> (declared only) over a text. The token stream of a text from offset \<open>pos\<close>: it ends with the end token, or with
  an error token where lexing stops. A string still open at the end of the text is an
  error at its opening quote.
\<close>

fun getTokens ::
  "COMPILER \<Rightarrow> LEXER_STATE \<Rightarrow> string \<Rightarrow> nat \<Rightarrow> nat \<Rightarrow> string \<Rightarrow> T_TOKEN list" where
  "getTokens cmpl LS_DEFAULT acc start pos [] = [mkToken G_ENDS 0 0 [] pos]"
| "getTokens cmpl LS_STRING acc start pos [] = [mkToken G_ERROR 0 0 [] start]"
| "getTokens cmpl st acc start pos (c # cs) =
     (case (case st of LS_DEFAULT \<Rightarrow> lexDefault cmpl pos c cs
                     | LS_STRING \<Rightarrow> lexString acc start c cs) of
        (toks, k, st', acc', start', stop) \<Rightarrow>
          if stop then toks
          else toks @ getTokens cmpl st' acc' start' (Suc pos + k) (drop k cs))"

subsection \<open>The parser\<close>

text \<open>
  Modelled from the spec: the grammar and the generated parser are not part of the
  sources. Section 4.3: "binary operators with standard arithmetic/relational/logical
  precedence and left-associativity (multiplicative > additive > relational > equality >
  logical-and > logical-or), unary boolean negation, parenthesized sub-expressions",
  literals, identifiers and struct-field references. The parser is a push parser: it is
  fed one token at a time and keeps a stack of finished subtrees and a stack of pending
  operators and open parentheses. The spec gives neither the tree nor the code of an
  assignment or of a call; the model has no production for them.

  The level of an operator: the smaller, the tighter it binds.
\<close>

definition precedence :: "nat \<Rightarrow> nat" where
  "precedence opc =
     (if opc = TR_OP_BOOL_NOT then 0
      else if opc = TR_OP_MUL \<or> opc = TR_OP_DIV then 1
      else if opc = TR_OP_ADD \<or> opc = TR_OP_SUB then 2
      else if isOrdering opc then 3
      else if isEquality opc then 4
      else if opc = TR_OP_BOOL_AND then 5
      else 6)"

text \<open>
  Modelled from the spec: the tree of a negation, "a binary tree node with operation
  code, up to two child ownership links, a validity flag, and a source position".
\<close>

definition mkUnary :: "nat \<Rightarrow> int \<Rightarrow> TREE_NODE \<Rightarrow> TREE_NODE" where
  "mkUnary opc pos a = TREE_NODE [] 0 opc a NullNode True False pos"

text \<open>
  Modelled from the spec: the tree of a binary operator, with its two operands and the
  offset of the operator.
\<close>

definition mkBinary :: "nat \<Rightarrow> int \<Rightarrow> TREE_NODE \<Rightarrow> TREE_NODE \<Rightarrow> TREE_NODE" where
  "mkBinary opc pos a b = TREE_NODE [] 0 opc a b True False pos"

text \<open>
  Modelled from the spec: an entry of the parser's stack of pending operators, an open
  parenthesis or an operator with its opcode, each with the offset of its token.
\<close>

datatype OP_ENTRY = ParenEntry int | OpEntry nat int

text \<open>
  Modelled from the spec: part of the parser. Reduce the pending operators of level at most \<open>m\<close>, the most recent first, down to
  the nearest open parenthesis.
\<close>

fun reduce :: "nat \<Rightarrow> TREE_NODE list \<Rightarrow> OP_ENTRY list \<Rightarrow> TREE_NODE list \<times> OP_ENTRY list" where
  "reduce m out [] = (out, [])"
| "reduce m out (ParenEntry p # ops) = (out, ParenEntry p # ops)"
| "reduce m out (OpEntry opc p # ops) =
     (if m < precedence opc then (out, OpEntry opc p # ops)
      else if opc = TR_OP_BOOL_NOT then
        (case out of
           a # out' \<Rightarrow> reduce m (mkUnary opc p a # out') ops
         | [] \<Rightarrow> (out, OpEntry opc p # ops))
      else
        (case out of
           b # a # out' \<Rightarrow> reduce m (mkBinary opc p a b # out') ops
         | _ \<Rightarrow> (out, OpEntry opc p # ops)))"

text \<open>
  Modelled from the spec: the parser's state (the header holds it behind the untyped
  \<^verbatim>\<open>m_parser\<close>): the two stacks and whether an operand is expected next; or the
  offset of the token at which parsing failed; or the root of the finished tree.
\<close>

datatype PARSER =
    Parsing "TREE_NODE list" "OP_ENTRY list" bool
  | ParseFailed int
  | ParseFinished TREE_NODE

text \<open>
  Modelled from the spec: the parser fed one token. An operand is pushed; a unit joins
  the number before it; a negation or an open parenthesis waits for its operand; a
  binary operator first reduces the pending operators that bind at least as tightly (so
  equal levels associate to the left), then waits; a closing parenthesis reduces down to
  its opening one; the end token reduces everything and must leave one tree. Anything
  else is a Parse error at the token's offset.
\<close>

fun Parse :: "PARSER \<Rightarrow> T_TOKEN \<Rightarrow> PARSER" where
  "Parse (ParseFailed pos) tok = ParseFailed pos"
| "Parse (ParseFinished aRoot) tok = ParseFinished aRoot"
| "Parse (Parsing out ops expectOperand) tok =
     (let pos = nodePos (tvalue tok) in
      case token tok of
        G_VALUE \<Rightarrow> if expectOperand then Parsing (tvalue tok # out) ops False else ParseFailed pos
      | G_STRING \<Rightarrow> if expectOperand then Parsing (tvalue tok # out) ops False else ParseFailed pos
      | G_IDENTIFIER \<Rightarrow>
          if expectOperand then Parsing (tvalue tok # out) ops False else ParseFailed pos
      | G_STRUCT_REF \<Rightarrow>
          if expectOperand then Parsing (tvalue tok # out) ops False else ParseFailed pos
      | G_UNIT \<Rightarrow>
          (case out of
             TREE_NODE str ty opc NullNode l1 v t p # out' \<Rightarrow>
               if \<not> expectOperand \<and> opc = TR_NUMBER
               then Parsing (TREE_NODE str ty opc (tvalue tok) l1 v t p # out') ops False
               else ParseFailed pos
           | _ \<Rightarrow> ParseFailed pos)
      | G_OP opc \<Rightarrow>
          if opc = TR_OP_BOOL_NOT then
            (if expectOperand then Parsing out (OpEntry opc pos # ops) True else ParseFailed pos)
          else if expectOperand then ParseFailed pos
          else (case reduce (precedence opc) out ops of
                  (out', ops') \<Rightarrow> Parsing out' (OpEntry opc pos # ops') True)
      | G_PARENL \<Rightarrow>
          if expectOperand then Parsing out (ParenEntry pos # ops) True else ParseFailed pos
      | G_PARENR \<Rightarrow>
          if expectOperand then ParseFailed pos
          else (case reduce 6 out ops of
                  (out', ParenEntry p # ops') \<Rightarrow> Parsing out' ops' False
                | _ \<Rightarrow> ParseFailed pos)
      | G_ENDS \<Rightarrow>
          if expectOperand then ParseFailed pos
          else (case reduce 6 out ops of
                  ([aRoot], []) \<Rightarrow> ParseFinished aRoot
                | _ \<Rightarrow> ParseFailed pos)
      | _ \<Rightarrow> ParseFailed pos)"

text \<open>Modelled from the spec: the parser fed the tokens of a text in order.\<close>

definition parseTokens :: "T_TOKEN list \<Rightarrow> PARSER" where
  "parseTokens toks = foldl Parse (Parsing [] [] True) toks"

subsection \<open>The code generator\<close>

text \<open>
  Modelled from the spec: the conversion of a numeric literal (the library call and
  \<^verbatim>\<open>UNIT_RESOLVER::Convert\<close> of a host are not part of the sources). The digits of
  the integer part, of the fraction and of the exponent are read in base ten.
\<close>

definition digitsVal :: "string \<Rightarrow> nat" where
  "digitsVal s = foldl (\<lambda>a c. 10 * a + ((of_char c :: nat) - 48)) 0 s"

text \<open>
  Modelled from the spec: the double of a numeric literal, "digits, optional decimal
  separator, optional exponent".
\<close>

definition str_to_dbl :: "char \<Rightarrow> string \<Rightarrow> real" where
  "str_to_dbl sep s =
     (let ip = takeWhile isdigit s;
          r1 = dropWhile isdigit s;
          hasSep = (case r1 of [] \<Rightarrow> False | c # r \<Rightarrow> isDecimalSeparator sep c);
          fp = (if hasSep then takeWhile isdigit (tl r1) else []);
          r2 = (if hasSep then dropWhile isdigit (tl r1) else r1);
          mant = real (digitsVal ip) + real (digitsVal fp) / 10 ^ length fp
      in case r2 of
           [] \<Rightarrow> mant
         | e # r \<Rightarrow>
             if e = CHR ''e'' \<or> e = CHR ''E'' then
               (case r of
                  [] \<Rightarrow> mant
                | sg # d \<Rightarrow>
                    if sg = CHR ''-'' then mant / 10 ^ digitsVal (takeWhile isdigit d)
                    else if sg = CHR ''+'' then mant * 10 ^ digitsVal (takeWhile isdigit d)
                    else mant * 10 ^ digitsVal (takeWhile isdigit r))
             else mant)"

text \<open>
  Modelled from the spec: part of \<^verbatim>\<open>COMPILER::generateUCode\<close>. The double of a number node: converted by the unit resolver when the parser attached
  a unit to it, read as a plain decimal otherwise.
\<close>

fun numberValue :: "COMPILER \<Rightarrow> TREE_NODE \<Rightarrow> real" where
  "numberValue cmpl NullNode = 0"
| "numberValue cmpl (TREE_NODE str ty opc l0 l1 v t pos) =
     (case l0 of
        NullNode \<Rightarrow> str_to_dbl (m_localeDecimalSeparator cmpl) str
      | TREE_NODE ustr uty uopc ul0 ul1 uv ut upos \<Rightarrow> Convert (m_unitResolver cmpl) str uty)"

text \<open>
  Modelled from the spec: the tree walk of \<^verbatim>\<open>COMPILER::generateUCode\<close> (declared
  only), after section 4.4: "walks the AST in post order (operands before operators)";
  a literal gives a push-constant operation "carrying an owned copy of the Value"; an
  identifier or a struct-field reference is resolved by the host, and gives a
  push-variable operation, or a Codegen error "at the node's source position"; an
  operator gives the code of its operands, then its opcode. The result is the
  operations in order, or the offset of the node where code generation aborts.
\<close>

fun genOps :: "COMPILER \<Rightarrow> UCODE \<Rightarrow> TREE_NODE \<Rightarrow> int + UOP list" where
  "genOps cmpl aCode NullNode = Inr []"
| "genOps cmpl aCode (TREE_NODE str ty opc l0 l1 v t pos) =
     (if opc = TR_NUMBER then
        Inr [makeUop_dbl TR_UOP_PUSH_VALUE (numberValue cmpl (TREE_NODE str ty opc l0 l1 v t pos))]
      else if opc = TR_STRING then Inr [makeUop_str TR_UOP_PUSH_VALUE str]
      else if opc = TR_IDENTIFIER then
        (case createVarRef aCode str [] of
           None \<Rightarrow> Inl pos
         | Some r \<Rightarrow> Inr [makeUop_ref TR_UOP_PUSH_VAR (Some r)])
      else if opc = TR_STRUCT_REF then
        (case createVarRef aCode (nodeStr l0) (nodeStr l1) of
           None \<Rightarrow> Inl pos
         | Some r \<Rightarrow> Inr [makeUop_ref TR_UOP_PUSH_VAR (Some r)])
      else
        (case genOps cmpl aCode l0 of
           Inl e \<Rightarrow> Inl e
         | Inr ops0 \<Rightarrow>
             (case genOps cmpl aCode l1 of
                Inl e \<Rightarrow> Inl e
              | Inr ops1 \<Rightarrow> Inr (ops0 @ ops1 @ [makeUop_ref opc None]))))"

text \<open>
  Modelled from the spec: \<^verbatim>\<open>COMPILER::generateUCode\<close>: the operations are added to the program with
  \<^verbatim>\<open>AddOp\<close>; on failure the error is reported at the node's offset and nothing is
  added.
\<close>

definition generateUCode :: "UCODE \<Rightarrow> COMPILER \<Rightarrow> bool \<times> UCODE \<times> COMPILER" where
  "generateUCode aCode cmpl =
     (case genOps cmpl aCode (m_tree cmpl) of
        Inl pos \<Rightarrow>
          (False, aCode, COMPILER_ReportError ''unresolved reference'' (cmpl\<lparr>m_sourcePos := pos\<rparr>))
      | Inr ops \<Rightarrow> (True, foldl (\<lambda>code uop. AddOp uop code) aCode ops, cmpl))"

subsection \<open>\<^verbatim>\<open>COMPILER::Compile\<close>\<close>

text \<open>
  Modelled from the spec: the body of \<^verbatim>\<open>COMPILER::Compile\<close>, which the header only
  declares. "Compiles text into program (clearing any prior program content); returns
  success; on failure the Error Status reflects stage=Parse or stage=Codegen." The Error
  Status of the compiler "is overwritten at the start of each Compile". "On any
  malformed production the parser sets the Error Status to stage=Parse with the current
  token's byte offset and aborts the current compile (no partial AST is handed to code
  generation)."
\<close>

definition Compile :: "string \<Rightarrow> UCODE \<Rightarrow> COMPILER \<Rightarrow> bool \<times> UCODE \<times> COMPILER" where
  "Compile aString aCode cmpl =
     (let cmpl1 = cmpl\<lparr>m_lexerState := LS_DEFAULT, m_sourcePos := 0,
                       m_compilerStatus := (m_compilerStatus cmpl)\<lparr>pendingError := False\<rparr>,
                       m_parseFinished := False, m_tree := NullNode\<rparr>;
          aCode1 = aCode\<lparr>m_ucode := []\<rparr>
      in case parseTokens (getTokens cmpl1 LS_DEFAULT [] 0 0 aString) of
           ParseFinished aRoot \<Rightarrow>
             generateUCode aCode1 (cmpl1\<lparr>m_parseFinished := True, m_tree := aRoot\<rparr>)
         | ParseFailed pos \<Rightarrow> (False, aCode1, parseError ''syntax error'' (cmpl1\<lparr>m_sourcePos := pos\<rparr>))
         | Parsing out ops expectOperand \<Rightarrow>
             (False, aCode1, parseError ''syntax error'' cmpl1))"

subsection \<open>The reference: a grammar with precedence levels, and the value of a tree\<close>






subsection \<open>Assumptions on the host, and relations between contexts\<close>







subsection \<open>Invariants of the parser and of a run\<close>




subsection \<open>A long expression\<close>







section \<open>Properties of the value model and of the execution context\<close>

text \<open>
  Claim C2. \<^verbatim>\<open>a == b\<close> holds exactly when both values are Numeric with equal doubles
  or both are String with equal texts. Values of different types are never equal, and a
  value of type Undefined is equal to nothing, itself included.
\<close>

theorem VALUE_eq_type_aware:
  "(VALUE_eq a b \<longleftrightarrow>
      (m_type a = VT_NUMERIC \<and> m_type b = VT_NUMERIC \<and> m_valueDbl a = m_valueDbl b) \<or>
      (m_type a = VT_STRING \<and> m_type b = VT_STRING \<and> m_valueStr a = m_valueStr b))
   \<and> (m_type a \<noteq> m_type b \<longrightarrow> \<not> VALUE_eq a b)
   \<and> (m_type a = VT_UNDEFINED \<or> m_type b = VT_UNDEFINED \<longrightarrow> \<not> VALUE_eq a b)
   \<and> (EqualTo a b = VALUE_eq a b)"
  by (cases "m_type a"; cases "m_type b") (simp_all add: VALUE_eq_def EqualTo_def)

theorem VALUE_eq_type_aware_witness:
  "VALUE_eq (VALUE_dbl 2) (VALUE_dbl 2) \<and> \<not> VALUE_eq (VALUE_dbl 2) (VALUE_dbl 3)
   \<and> VALUE_eq (VALUE_str ''a'') (VALUE_str ''a'') \<and> \<not> VALUE_eq (VALUE_str ''a'') (VALUE_str ''b'')
   \<and> \<not> VALUE_eq (VALUE_dbl 0) (VALUE_str [])
   \<and> \<not> VALUE_eq VALUE_undef VALUE_undef"
  using VALUE_eq_type_aware [of "VALUE_dbl 2" "VALUE_dbl 2"]
    VALUE_eq_type_aware [of "VALUE_dbl 2" "VALUE_dbl 3"]
    VALUE_eq_type_aware [of "VALUE_str ''a''" "VALUE_str ''a''"]
    VALUE_eq_type_aware [of "VALUE_str ''a''" "VALUE_str ''b''"]
    VALUE_eq_type_aware [of "VALUE_dbl 0" "VALUE_str []"]
    VALUE_eq_type_aware [of VALUE_undef VALUE_undef]
  by (simp add: VALUE_dbl_def VALUE_str_def VALUE_undef_def)

subsection \<open>The opcodes and the two masks\<close>

text \<open>
  Every binary opcode but \<^verbatim>\<open>TR_OP_LESS\<close> contains the bit of the binary mask, and
  the opcode of the negation is the unary mask.
\<close>

lemma opcode_masks:
  "TR_OP_LESS AND TR_OP_BINARY_MASK = 0"
  "TR_OP_MUL AND TR_OP_BINARY_MASK = TR_OP_BINARY_MASK"
  "TR_OP_DIV AND TR_OP_BINARY_MASK = TR_OP_BINARY_MASK"
  "TR_OP_ADD AND TR_OP_BINARY_MASK = TR_OP_BINARY_MASK"
  "TR_OP_SUB AND TR_OP_BINARY_MASK = TR_OP_BINARY_MASK"
  "TR_OP_GREATER AND TR_OP_BINARY_MASK = TR_OP_BINARY_MASK"
  "TR_OP_LESS_EQUAL AND TR_OP_BINARY_MASK = TR_OP_BINARY_MASK"
  "TR_OP_GREATER_EQUAL AND TR_OP_BINARY_MASK = TR_OP_BINARY_MASK"
  "TR_OP_EQUAL AND TR_OP_BINARY_MASK = TR_OP_BINARY_MASK"
  "TR_OP_NOT_EQUAL AND TR_OP_BINARY_MASK = TR_OP_BINARY_MASK"
  "TR_OP_BOOL_AND AND TR_OP_BINARY_MASK = TR_OP_BINARY_MASK"
  "TR_OP_BOOL_OR AND TR_OP_BINARY_MASK = TR_OP_BINARY_MASK"
  "TR_OP_BOOL_NOT = TR_OP_UNARY_MASK"
  by (simp_all add: TR_OP_BINARY_MASK_def TR_OP_UNARY_MASK_def TR_OP_MUL_def TR_OP_DIV_def
      TR_OP_ADD_def TR_OP_SUB_def TR_OP_LESS_def TR_OP_GREATER_def TR_OP_LESS_EQUAL_def
      TR_OP_GREATER_EQUAL_def TR_OP_EQUAL_def TR_OP_NOT_EQUAL_def TR_OP_BOOL_AND_def
      TR_OP_BOOL_OR_def TR_OP_BOOL_NOT_def)

subsection \<open>The scratch arena\<close>

lemma AllocValue_in_range:
  assumes "0 \<le> m_memPos c" "m_memPos c < 128" "length (m_heap c) = 128"
  shows "AllocValue c = Ok (PHeap (nat (m_memPos c)), c\<lparr>m_memPos := m_memPos c + 1\<rparr>)"
  using assms by (simp add: AllocValue_def c_memSize_def)

lemma AllocValues_from:
  assumes "m_memPos c = int k" "k + n \<le> 128" "length (m_heap c) = 128"
  shows "AllocValues n c = Ok (map PHeap [k..<k + n], c\<lparr>m_memPos := int (k + n)\<rparr>)"
  using assms
proof (induction n arbitrary: c k)
  case 0
  then show ?case by simp
next
  case (Suc n)
  let ?c' = "c\<lparr>m_memPos := m_memPos c + 1\<rparr>"
  have a: "AllocValue c = Ok (PHeap k, ?c')"
    using Suc.prems AllocValue_in_range [of c] by simp
  have "AllocValues n ?c' = Ok (map PHeap [Suc k..<Suc k + n], ?c'\<lparr>m_memPos := int (Suc k + n)\<rparr>)"
    using Suc.prems by (intro Suc.IH) simp_all
  then show ?case
    using a by (simp add: upt_rec [of k])
qed

text \<open>
  Claim C7. A fresh context holds an arena of exactly 128 slots. Any \<open>n \<le> 128\<close>
  allocations in a row from construction succeed: the assertion does not fire, the
  \<open>k\<close>-th call returns the slot of index \<open>k\<close> (so the pointers are pairwise distinct
  and inside the arena) and the allocation pointer ends at \<open>n\<close>.
\<close>

theorem AllocValue_arena:
  assumes "n \<le> 128"
  shows "length (m_heap (CONTEXT_new stk0 stage0 pos0)) = 128
    \<and> AllocValues n (CONTEXT_new stk0 stage0 pos0)
        = Ok (map PHeap [0..<n], (CONTEXT_new stk0 stage0 pos0)\<lparr>m_memPos := int n\<rparr>)
    \<and> distinct (map PHeap [0..<n])
    \<and> (\<forall>p \<in> set (map PHeap [0..<n]). \<exists>i < 128. p = PHeap i)"
proof -
  let ?c = "CONTEXT_new stk0 stage0 pos0"
  have len: "length (m_heap ?c) = 128" and pos: "m_memPos ?c = int 0"
    by (simp_all add: CONTEXT_new_def c_memSize_def)
  have "AllocValues n ?c = Ok (map PHeap [0..<0 + n], ?c\<lparr>m_memPos := int (0 + n)\<rparr>)"
    using assms len by (intro AllocValues_from pos) simp_all
  moreover have "distinct (map PHeap [0..<n])"
    by (simp add: distinct_map inj_on_def)
  ultimately show ?thesis
    using len assms by auto
qed

theorem AllocValue_arena_witness:
  "AllocValues 2 (CONTEXT_new (\<lambda>_. PNull) CST_PARSE 0)
     = Ok ([PHeap 0, PHeap 1], (CONTEXT_new (\<lambda>_. PNull) CST_PARSE 0)\<lparr>m_memPos := 2\<rparr>)"
  using AllocValue_arena [of 2 "\<lambda>_. PNull" CST_PARSE 0]
  by (simp add: upt_rec)

subsection \<open>The operand stack\<close>

text \<open>
  Claim C10. With \<open>0 \<le> SP < 128\<close>, \<^verbatim>\<open>Push( v )\<close> followed by \<^verbatim>\<open>Pop()\<close> returns
  \<open>v\<close> and leaves the stack pointer, the operand stack, the arena, the allocation pointer
  and the error status as they were; the only trace is \<open>v\<close> in the array cell just
  above the stack, which no \<^verbatim>\<open>Pop\<close> reads before a \<^verbatim>\<open>Push\<close> overwrites it.
\<close>

theorem Push_Pop_identity:
  assumes "0 \<le> SP c" "SP c < 128"
  shows "obind (Push v c) Pop = Ok (v, c\<lparr>m_stack := (m_stack c)(nat (m_sp c) := v)\<rparr>)
      \<and> obind (Push v c) (\<lambda>c1. Ok (SP c1)) = Ok (SP c + 1)
      \<and> obind (obind (Push v c) Pop) (\<lambda>(p, c2). Ok (SP c2)) = Ok (SP c)
      \<and> obind (obind (Push v c) Pop) (\<lambda>(p, c2). Ok (stack_contents c2)) = Ok (stack_contents c)
      \<and> obind (obind (Push v c) Pop) (\<lambda>(p, c2). Ok (m_heap c2, m_memPos c2, m_errorStatus c2))
            = Ok (m_heap c, m_memPos c, m_errorStatus c)"
  using assms
  by (simp add: obind_def Push_def Pop_def SP_def c_stackSize_def stack_contents_def)

theorem Push_Pop_identity_witness:
  "obind (obind (Push (PHeap 5) (CONTEXT_new (\<lambda>_. PNull) CST_PARSE 0)) Pop) (\<lambda>(p, c2). Ok (p, SP c2))
     = Ok (PHeap 5, 0)"
  using Push_Pop_identity [of "CONTEXT_new (\<lambda>_. PNull) CST_PARSE 0" "PHeap 5"]
  by (simp add: CONTEXT_new_def SP_def obind_def)

lemma Pushes_in_range:
  assumes "m_sp c = int k" "k + length vs \<le> 128"
  shows "\<exists>c'. Pushes vs c = Ok c' \<and> m_sp c' = int (k + length vs)"
  using assms
proof (induction vs arbitrary: c k)
  case Nil
  then show ?case by simp
next
  case (Cons v vs)
  let ?c' = "c\<lparr>m_stack := (m_stack c)(nat (m_sp c) := v), m_sp := m_sp c + 1\<rparr>"
  have p: "Push v c = Ok ?c'"
    using Cons.prems by (simp add: Push_def c_stackSize_def)
  have "\<exists>c''. Pushes vs ?c' = Ok c'' \<and> m_sp c'' = int (Suc k + length vs)"
    using Cons.prems by (intro Cons.IH) simp_all
  then show ?case using p by simp
qed

text \<open>
  Claim C6. The stack holds 128 entries, but neither \<^verbatim>\<open>Push\<close> nor \<^verbatim>\<open>Pop\<close>
  checks it: \<^verbatim>\<open>Pop\<close> on a fresh context reads the cell before the array, and
  the 129th \<^verbatim>\<open>Push\<close> writes the cell after it. Neither is caught by an assertion,
  unlike the arena overflow in \<^verbatim>\<open>AllocValue\<close>.
\<close>

theorem Push_full_Pop_empty_unchecked:
  "Pop (CONTEXT_new (\<lambda>_. PNull) CST_PARSE 0) = OutOfBounds
   \<and> (\<exists>c. Pushes (replicate 128 PNull) (CONTEXT_new (\<lambda>_. PNull) CST_PARSE 0) = Ok c
          \<and> SP c = 128 \<and> Push PNull c = OutOfBounds)"
proof -
  let ?c0 = "CONTEXT_new (\<lambda>_. PNull) CST_PARSE 0"
  have "Pop ?c0 = OutOfBounds"
    by (simp add: Pop_def CONTEXT_new_def c_stackSize_def)
  moreover have "m_sp ?c0 = int 0" by (simp add: CONTEXT_new_def)
  then obtain c where c: "Pushes (replicate 128 PNull) ?c0 = Ok c" "m_sp c = 128"
    using Pushes_in_range [of ?c0 0 "replicate 128 PNull"] by auto
  then have "Push PNull c = OutOfBounds"
    by (simp add: Push_def c_stackSize_def)
  ultimately show ?thesis using c by (auto simp: SP_def)
qed

section \<open>Properties of the compiler and of the virtual machine\<close>

text \<open>The definitions that evaluate the model on a concrete text.\<close>

lemmas opcodeDefs =
  TR_OP_MUL_def TR_OP_DIV_def TR_OP_ADD_def TR_OP_SUB_def TR_OP_LESS_def TR_OP_GREATER_def
  TR_OP_LESS_EQUAL_def TR_OP_GREATER_EQUAL_def TR_OP_EQUAL_def TR_OP_NOT_EQUAL_def
  TR_OP_BOOL_AND_def TR_OP_BOOL_OR_def TR_OP_BOOL_NOT_def TR_OP_FUNC_CALL_def
  TR_OP_METHOD_CALL_def TR_UOP_PUSH_VAR_def TR_UOP_PUSH_VALUE_def
  TR_NUMBER_def TR_IDENTIFIER_def TR_ASSIGN_def TR_STRUCT_REF_def TR_STRING_def TR_UNIT_def
  isArithmetic_def isOrdering_def isEquality_def isLogical_def isBinary_def

lemmas lexerDefs =
  lexDefault_def lexString_def lexOperator_def isspace_def isdigit_def isalpha_def
  isIdentStart_def isIdentChar_def isDecimalSeparator_def numberLen_def runLen_def
  exponentLen_def resolveUnits_def mkToken_def snprintf_s_def LIBEVAL_MAX_LITERAL_LENGTH_def
  COMPILER_new_def UNIT_RESOLVER_new_def UCODE_new_def Let_def

lemmas compileDefs =
  Compile_def parseTokens_def precedence_def mkUnary_def mkBinary_def generateUCode_def
  AddOp_def str_to_dbl_def digitsVal_def makeUop_dbl_def makeUop_str_def makeUop_ref_def
  COMPILER_ReportError_def parseError_def recordError_def IsValid_def

lemmas runDefs =
  Run_def RunValue_def RunStatus_def Exec_def execBinary_def execUnary_def pushResult_def
  binaryResult_def toBool_def ofBool_def obind_def Push_def Pop_def AllocValue_def deref_def
  assign_def SP_def GetErrorStatus_def CONTEXT_new_def CONTEXT_ReportError_def c_memSize_def
  c_stackSize_def Set_dbl_def Set_val_def VALUE_dbl_def VALUE_str_def VALUE_undef_def
  AsDouble_def EqualTo_def VALUE_eq_def

subsection \<open>The error status\<close>

lemma recordErrors_pending: "pendingError st \<Longrightarrow> recordErrors es st = st"
  by (induction es st rule: recordErrors.induct) (simp_all add: recordError_def)

lemma execAll_append: "execAll (xs @ ys) c = obind (execAll xs c) (execAll ys)"
proof (induction xs arbitrary: c)
  case Nil
  show ?case by (simp add: obind_def)
next
  case (Cons x xs)
  show ?case
    by (cases "Exec x c") (simp_all add: obind_def Cons.IH)
qed

text \<open>
  Claim C5. Once an error is pending, a further report leaves the status as it is, stage,
  message and offset included, whether it comes from the parser, the code generator or
  the context; of the reports of one pass the status holds the first. \<^verbatim>\<open>IsValid\<close> is
  true exactly when no error is pending, and false after any report.
\<close>

theorem first_error_retained:
  "(pendingError st \<longrightarrow> recordError aStage aErrorMsg aPos st = st)
   \<and> (pendingError st \<longrightarrow> recordErrors es st = st)
   \<and> (\<not> pendingError st \<longrightarrow>
        recordErrors ((aStage, aErrorMsg, aPos) # es) st
          = st\<lparr>pendingError := True, stage := aStage, message := aErrorMsg, srcPos := aPos\<rparr>)
   \<and> (pendingError (GetErrorStatus c) \<longrightarrow> CONTEXT_ReportError aErrorMsg c = c)
   \<and> (\<not> IsValid cmpl \<longrightarrow> parseError aErrorMsg cmpl = cmpl \<and> COMPILER_ReportError aErrorMsg cmpl = cmpl)
   \<and> IsValid cmpl = (\<not> pendingError (m_compilerStatus cmpl))
   \<and> \<not> IsValid (parseError aErrorMsg cmpl) \<and> \<not> IsValid (COMPILER_ReportError aErrorMsg cmpl)
   \<and> pendingError (GetErrorStatus (CONTEXT_ReportError aErrorMsg c))"
  by (simp add: recordErrors_pending recordError_def GetErrorStatus_def CONTEXT_ReportError_def
      IsValid_def parseError_def COMPILER_ReportError_def)

theorem first_error_retained_witness:
  "recordErrors [(CST_PARSE, ''first'', 3), (CST_CODEGEN, ''second'', 7), (CST_RUNTIME, ''third'', 9)]
      \<lparr>pendingError = False, stage = CST_RUNTIME, message = [], srcPos = 0\<rparr>
     = \<lparr>pendingError = True, stage = CST_PARSE, message = ''first'', srcPos = 3\<rparr>
   \<and> recordError CST_CODEGEN ''second'' 7
        \<lparr>pendingError = True, stage = CST_PARSE, message = ''first'', srcPos = 3\<rparr>
     = \<lparr>pendingError = True, stage = CST_PARSE, message = ''first'', srcPos = 3\<rparr>
   \<and> IsValid (COMPILER_new (CHR ''.'') CST_PARSE 0)
   \<and> \<not> IsValid (parseError ''first'' (COMPILER_new (CHR ''.'') CST_PARSE 0))"
  using first_error_retained [of "\<lparr>pendingError = False, stage = CST_RUNTIME, message = [], srcPos = 0\<rparr>"
      CST_PARSE "''first''" 3 "[(CST_CODEGEN, ''second'', 7), (CST_RUNTIME, ''third'', 9)]"
      "CONTEXT_new (\<lambda>_. PNull) CST_PARSE 0" "COMPILER_new (CHR ''.'') CST_PARSE 0"]
    first_error_retained [of "\<lparr>pendingError = True, stage = CST_PARSE, message = ''first'', srcPos = 3\<rparr>"
      CST_CODEGEN "''second''" 7 "[]"
      "CONTEXT_new (\<lambda>_. PNull) CST_PARSE 0" "COMPILER_new (CHR ''.'') CST_PARSE 0"]
  by (simp add: COMPILER_new_def IsValid_def)

subsection \<open>\<^verbatim>\<open>Compile\<close> and the program it fills\<close>

lemma genOps_prior: "genOps cmpl (aCode\<lparr>m_ucode := prior\<rparr>) t = genOps cmpl aCode t"
  by (induction t) (simp_all split: sum.split)

lemma foldl_AddOp:
  "foldl (\<lambda>code uop. AddOp uop code) aCode ops = aCode\<lparr>m_ucode := m_ucode aCode @ ops\<rparr>"
  by (induction ops arbitrary: aCode) (simp_all add: AddOp_def)

lemma Compile_cases:
  "Compile aString aCode cmpl =
    (let cmpl1 = cmpl\<lparr>m_lexerState := LS_DEFAULT, m_sourcePos := 0,
                       m_compilerStatus := (m_compilerStatus cmpl)\<lparr>pendingError := False\<rparr>,
                       m_parseFinished := False, m_tree := NullNode\<rparr>
     in case parseTokens (getTokens cmpl1 LS_DEFAULT [] 0 0 aString) of
          ParseFinished aRoot \<Rightarrow>
            (case genOps (cmpl1\<lparr>m_parseFinished := True, m_tree := aRoot\<rparr>) aCode aRoot of
               Inl pos \<Rightarrow> (False, aCode\<lparr>m_ucode := []\<rparr>,
                  COMPILER_ReportError ''unresolved reference''
                    (cmpl1\<lparr>m_parseFinished := True, m_tree := aRoot, m_sourcePos := pos\<rparr>))
             | Inr ops \<Rightarrow> (True, aCode\<lparr>m_ucode := ops\<rparr>, cmpl1\<lparr>m_parseFinished := True, m_tree := aRoot\<rparr>))
        | ParseFailed pos \<Rightarrow>
            (False, aCode\<lparr>m_ucode := []\<rparr>, parseError ''syntax error'' (cmpl1\<lparr>m_sourcePos := pos\<rparr>))
        | Parsing out ops expectOperand \<Rightarrow>
            (False, aCode\<lparr>m_ucode := []\<rparr>, parseError ''syntax error'' cmpl1))"
  by (simp add: Compile_def Let_def generateUCode_def genOps_prior foldl_AddOp
      split: PARSER.split sum.split)

text \<open>
  Claim C9. What \<^verbatim>\<open>Compile\<close> returns, the program included, is the same whatever
  operations the target program held before: it is what compiling into the emptied
  program gives. \<^verbatim>\<open>Compile\<close> returns true exactly when no error is pending
  afterwards, and when it returns false the stage of the pending error is Parse or
  Codegen. The host's bindings of the program are untouched.
\<close>

theorem Compile_clears_program:
  "Compile aString (aCode\<lparr>m_ucode := prior\<rparr>) cmpl = Compile aString (aCode\<lparr>m_ucode := []\<rparr>) cmpl
   \<and> (case Compile aString aCode cmpl of
        (ok, code, cmpl') \<Rightarrow>
          createVarRef code = createVarRef aCode \<and> createFuncCall code = createFuncCall aCode
          \<and> ok = IsValid cmpl'
          \<and> (\<not> ok \<longrightarrow> pendingError (m_compilerStatus cmpl')
                \<and> (stage (m_compilerStatus cmpl') = CST_PARSE
                    \<or> stage (m_compilerStatus cmpl') = CST_CODEGEN)))"
proof
  show "Compile aString (aCode\<lparr>m_ucode := prior\<rparr>) cmpl = Compile aString (aCode\<lparr>m_ucode := []\<rparr>) cmpl"
    by (simp add: Compile_cases Let_def genOps_prior split: PARSER.split sum.split)
  show "case Compile aString aCode cmpl of
        (ok, code, cmpl') \<Rightarrow>
          createVarRef code = createVarRef aCode \<and> createFuncCall code = createFuncCall aCode
          \<and> ok = IsValid cmpl'
          \<and> (\<not> ok \<longrightarrow> pendingError (m_compilerStatus cmpl')
                \<and> (stage (m_compilerStatus cmpl') = CST_PARSE
                    \<or> stage (m_compilerStatus cmpl') = CST_CODEGEN))"
    by (simp add: Compile_cases Let_def IsValid_def parseError_def COMPILER_ReportError_def
        recordError_def split: PARSER.split sum.split)
qed

theorem Compile_clears_program_witness:
  "Compile ''1 / 0'' (UCODE_new\<lparr>m_ucode := [makeUop_dbl TR_UOP_PUSH_VALUE 7]\<rparr>)
       (COMPILER_new (CHR ''.'') CST_RUNTIME 0)
     = Compile ''1 / 0'' (UCODE_new\<lparr>m_ucode := []\<rparr>) (COMPILER_new (CHR ''.'') CST_RUNTIME 0)
   \<and> map m_op (m_ucode (fst (snd (Compile ''1 / 0''
         (UCODE_new\<lparr>m_ucode := [makeUop_dbl TR_UOP_PUSH_VALUE 7]\<rparr>)
         (COMPILER_new (CHR ''.'') CST_RUNTIME 0)))))
       = [TR_UOP_PUSH_VALUE, TR_UOP_PUSH_VALUE, TR_OP_DIV]
   \<and> (case Compile ''2 +'' UCODE_new (COMPILER_new (CHR ''.'') CST_RUNTIME 0) of
        (ok, code, cmpl') \<Rightarrow> \<not> ok \<and> \<not> IsValid cmpl' \<and> stage (m_compilerStatus cmpl') = CST_PARSE)
   \<and> (case Compile ''x'' UCODE_new (COMPILER_new (CHR ''.'') CST_RUNTIME 0) of
        (ok, code, cmpl') \<Rightarrow> \<not> ok \<and> \<not> IsValid cmpl' \<and> stage (m_compilerStatus cmpl') = CST_CODEGEN)"
  using Compile_clears_program [where aString = "''1 / 0''" and aCode = UCODE_new
      and prior = "[makeUop_dbl TR_UOP_PUSH_VALUE 7]"
      and cmpl = "COMPILER_new (CHR ''.'') CST_RUNTIME 0"]
    Compile_clears_program [where aString = "''2 +''" and aCode = UCODE_new and prior = "[]"
      and cmpl = "COMPILER_new (CHR ''.'') CST_RUNTIME 0"]
    Compile_clears_program [where aString = "''x''" and aCode = UCODE_new and prior = "[]"
      and cmpl = "COMPILER_new (CHR ''.'') CST_RUNTIME 0"]
  by (simp add: lexerDefs compileDefs opcodeDefs)

subsection \<open>Runs do not depend on what a fresh context leaves unset\<close>

















subsection \<open>Runtime errors\<close>

















subsection \<open>No short-circuit evaluation\<close>

text \<open>
  Claim C4. The code of \<open>a && b\<close> and of \<open>a || b\<close> is the code of \<open>a\<close>, then the code
  of \<open>b\<close>, then the operator: there is no jump. Running it runs the code of \<open>a\<close>, then
  the code of \<open>b\<close> on the context the former leaves, whatever value \<open>a\<close> had, then the
  operator, whose result is the conjunction or disjunction of the operands coerced to
  boolean: a nonzero number or a nonempty string is true. In \<open>0 && 1 / 0\<close> the division
  is executed and reports its error although the left operand is false.
\<close>

theorem logical_operators_run_both_operands:
  assumes "opc = TR_OP_BOOL_AND \<or> opc = TR_OP_BOOL_OR"
  shows "genOps cmpl aCode (TREE_NODE str ty opc l0 l1 v t pos)
       = (case genOps cmpl aCode l0 of
            Inl e \<Rightarrow> Inl e
          | Inr ops0 \<Rightarrow>
              (case genOps cmpl aCode l1 of
                 Inl e \<Rightarrow> Inl e
               | Inr ops1 \<Rightarrow> Inr (ops0 @ ops1 @ [makeUop_ref opc None])))
    \<and> execAll (ops0 @ ops1 @ [makeUop_ref opc None]) c
       = obind (execAll ops0 c) (\<lambda>c0. obind (execAll ops1 c0) (execBinary opc))
    \<and> binaryResult opc arg1 arg2
       = Inr (ofBool (if opc = TR_OP_BOOL_AND then toBool arg1 \<and> toBool arg2
                      else toBool arg1 \<or> toBool arg2))
    \<and> toBool arg1 = (GetType arg1 = VT_NUMERIC \<and> AsDouble arg1 \<noteq> 0
                      \<or> GetType arg1 = VT_STRING \<and> AsString arg1 \<noteq> [])"
proof -
  have gen: "genOps cmpl aCode (TREE_NODE str ty opc l0 l1 v t pos)
       = (case genOps cmpl aCode l0 of
            Inl e \<Rightarrow> Inl e
          | Inr ops0 \<Rightarrow>
              (case genOps cmpl aCode l1 of
                 Inl e \<Rightarrow> Inl e
               | Inr ops1 \<Rightarrow> Inr (ops0 @ ops1 @ [makeUop_ref opc None])))"
    using assms by (auto simp: opcodeDefs)
  have "Exec (makeUop_ref opc None) c' = execBinary opc c'" for c'
    using assms by (auto simp: Exec_def makeUop_ref_def opcodeDefs)
  then have last: "execAll [makeUop_ref opc None] = execBinary opc"
    by (auto simp: obind_def fun_eq_iff split: outcome.split)
  have "execAll (ops1 @ [makeUop_ref opc None])
       = (\<lambda>c0. obind (execAll ops1 c0) (execBinary opc))"
    unfolding fun_eq_iff execAll_append last by (rule allI) (rule refl)
  then have run: "execAll (ops0 @ ops1 @ [makeUop_ref opc None]) c
       = obind (execAll ops0 c) (\<lambda>c0. obind (execAll ops1 c0) (execBinary opc))"
    by (simp only: execAll_append [of ops0])
  have res: "binaryResult opc arg1 arg2
       = Inr (ofBool (if opc = TR_OP_BOOL_AND then toBool arg1 \<and> toBool arg2
                      else toBool arg1 \<or> toBool arg2))"
    using assms by (auto simp: binaryResult_def opcodeDefs)
  show ?thesis
    using gen run res by (simp add: toBool_def GetType_def AsDouble_def AsString_def)
qed

theorem logical_operators_run_both_operands_witness:
  "m_ucode (fst (snd (Compile ''0 && 1 / 0'' UCODE_new (COMPILER_new (CHR ''.'') CST_PARSE 0))))
     = [makeUop_dbl TR_UOP_PUSH_VALUE 0]
       @ [makeUop_dbl TR_UOP_PUSH_VALUE 1, makeUop_dbl TR_UOP_PUSH_VALUE 0, makeUop_ref TR_OP_DIV None]
       @ [makeUop_ref TR_OP_BOOL_AND None]
   \<and> RunStatus (fst (snd (Compile ''0 && 1 / 0'' UCODE_new (COMPILER_new (CHR ''.'') CST_PARSE 0))))
        (CONTEXT_new (\<lambda>i. PNull) CST_PARSE 0)
     = Ok \<lparr>pendingError = True, stage = CST_RUNTIME, message = ''division by zero'', srcPos = 0\<rparr>
   \<and> RunValue (fst (snd (Compile ''0 && 1 / 0'' UCODE_new (COMPILER_new (CHR ''.'') CST_PARSE 0))))
        (CONTEXT_new (\<lambda>i. PNull) CST_PARSE 0)
     = Ok (VALUE_dbl 0)"
proof -
  let ?code = "fst (snd (Compile ''0 && 1 / 0'' UCODE_new (COMPILER_new (CHR ''.'') CST_PARSE 0)))"
  let ?c0 = "CONTEXT_new (\<lambda>i. PNull) CST_PARSE 0"
  let ?ops0 = "[makeUop_dbl TR_UOP_PUSH_VALUE 0]"
  let ?ops1 = "[makeUop_dbl TR_UOP_PUSH_VALUE 1, makeUop_dbl TR_UOP_PUSH_VALUE 0,
                makeUop_ref TR_OP_DIV None]"
  have code: "m_ucode ?code = ?ops0 @ ?ops1 @ [makeUop_ref TR_OP_BOOL_AND None]"
    by (simp add: lexerDefs compileDefs opcodeDefs)
  have both: "execAll (?ops0 @ ?ops1 @ [makeUop_ref TR_OP_BOOL_AND None]) (?c0\<lparr>m_sp := 0, m_memPos := 0\<rparr>)
      = obind (execAll ?ops0 (?c0\<lparr>m_sp := 0, m_memPos := 0\<rparr>))
          (\<lambda>c0. obind (execAll ?ops1 c0) (execBinary TR_OP_BOOL_AND))"
    using logical_operators_run_both_operands [of TR_OP_BOOL_AND] by blast
  have "RunStatus ?code ?c0
      = Ok \<lparr>pendingError = True, stage = CST_RUNTIME, message = ''division by zero'', srcPos = 0\<rparr>"
    unfolding RunStatus_def Run_def code
    apply (subst both)
    apply (simp add: runDefs opcodeDefs compileDefs)
    done
  moreover have "RunValue ?code ?c0 = Ok (VALUE_dbl 0)"
    unfolding RunValue_def Run_def code
    apply (subst both)
    apply (simp add: runDefs opcodeDefs compileDefs)
    done
  ultimately show ?thesis using code by simp
qed

subsection \<open>The parser reads an expression by its precedence levels\<close>






subsection \<open>The code of a tree computes its value\<close>



















lemma execAll_single: "execAll [uop] c = Exec uop c"
  by (cases "Exec uop c") (simp_all add: obind_def)







subsection \<open>From the text to the value\<close>














end
